theory Spec2Isabelle
  imports Main "HOL-Library.Sublist"
begin

section \<open>The FSAE ruleset scraper (bot/cogs/scraper.py)\<close>

text \<open>
  A shallow embedding of \<^verbatim>\<open>ScraperCog\<close>: the snapshot store (\<^verbatim>\<open>save_data\<close>,
  \<^verbatim>\<open>load_data\<close>), the metadata enricher (\<^verbatim>\<open>get_metadata\<close>), the listing parser
  (\<^verbatim>\<open>scrape_pdfs\<close>) and one cycle of \<^verbatim>\<open>check_for_updates\<close>. Python exceptions are
  values of \<open>error\<close>; a function that can raise returns \<open>error + 'a\<close>.
\<close>

subsection \<open>Exceptions and records\<close>

datatype error =
    FileNotFoundError
  | PermissionError
  | IsADirectoryError
  | JSONDecodeError
  | TypeError
  | ValueError
  | IndexError
  | AttributeError
  | ClientError
  | Unrepresentable

text \<open>
  \<open>Unrepresentable\<close> is no exception of Python: it marks a cache file whose JSON
  document the types of this model cannot hold (a character above code point 255,
  or a value that is not a list of records as \<open>save_data\<close> writes them). What the
  cycle does with such a file is outside the model.
\<close>

text \<open>
  The dict that \<^verbatim>\<open>scrape_pdfs\<close> appends to \<^verbatim>\<open>links\<close> has the keys \<^verbatim>\<open>title\<close>, \<^verbatim>\<open>url\<close>
  and \<^verbatim>\<open>document_id\<close> (a \<^verbatim>\<open>str\<close> or \<^verbatim>\<open>None\<close>).
\<close>

record link =
  title :: string
  url :: string
  document_id :: "string option"

text \<open>
  After line 81 every current dict has the key \<^verbatim>\<open>filename\<close> as well (a \<^verbatim>\<open>str\<close> or
  \<^verbatim>\<open>None\<close>); this is also the shape of the objects in the cache file. The reads
  \<^verbatim>\<open>previous_pdf.get('filename')\<close> and \<^verbatim>\<open>previous_pdf.get('document_id')\<close> give \<^verbatim>\<open>None\<close>
  for a missing key, which the model does not tell apart from a stored \<^verbatim>\<open>null\<close>.
\<close>

record pdf = link +
  filename :: "string option"

subsection \<open>The comparison of check\_for\_updates (lines 83 to 103)\<close>

text \<open>
  \<^verbatim>\<open>previous_urls = {pdf['url']: pdf for pdf in previous_pdfs}\<close>: the comprehension
  stores the entries in list order, so a later record replaces an earlier one with
  the same key.
\<close>

definition previous_urls :: "pdf list \<Rightarrow> (string \<rightharpoonup> pdf)" where
  "previous_urls previous_pdfs = fold (\<lambda>p m. m(url p \<mapsto> p)) previous_pdfs Map.empty"

definition previous_titles :: "pdf list \<Rightarrow> (string \<rightharpoonup> pdf)" where
  "previous_titles previous_pdfs = fold (\<lambda>p m. m(title p \<mapsto> p)) previous_pdfs Map.empty"

text \<open>
  The loop of lines 90 to 103, with the two result lists as the state
  \<open>(new_pdfs, modified_pdfs)\<close>; \<^verbatim>\<open>append\<close> adds at the end.
\<close>

fun compare_loop ::
  "(string \<rightharpoonup> pdf) \<Rightarrow> (string \<rightharpoonup> pdf) \<Rightarrow> pdf list \<Rightarrow> pdf list \<times> pdf list \<Rightarrow> pdf list \<times> pdf list"
where
  "compare_loop pu pt [] (new_pdfs, modified_pdfs) = (new_pdfs, modified_pdfs)"
| "compare_loop pu pt (p # ps) (new_pdfs, modified_pdfs) =
     (case pu (url p) of
        Some previous_pdf \<Rightarrow>
          if filename p \<noteq> filename previous_pdf
             \<or> (document_id p \<noteq> document_id previous_pdf \<and> title p = title previous_pdf)
          then compare_loop pu pt ps (new_pdfs, modified_pdfs @ [p])
          else compare_loop pu pt ps (new_pdfs, modified_pdfs)
      | None \<Rightarrow>
          (case pt (title p) of
             Some _ \<Rightarrow> compare_loop pu pt ps (new_pdfs, modified_pdfs @ [p])
           | None \<Rightarrow> compare_loop pu pt ps (new_pdfs @ [p], modified_pdfs)))"

definition compare_pdfs :: "pdf list \<Rightarrow> pdf list \<Rightarrow> pdf list \<times> pdf list" where
  "compare_pdfs previous_pdfs current_pdfs =
     compare_loop (previous_urls previous_pdfs) (previous_titles previous_pdfs)
       current_pdfs ([], [])"

text \<open>
  The branch the loop body takes for one record, as two predicates; the lemma
  \<open>compare_loop_filter\<close> below shows that the loop computes exactly these.
\<close>

definition goes_to_modified :: "(string \<rightharpoonup> pdf) \<Rightarrow> (string \<rightharpoonup> pdf) \<Rightarrow> pdf \<Rightarrow> bool" where
  "goes_to_modified pu pt p =
     (case pu (url p) of
        Some previous_pdf \<Rightarrow>
          filename p \<noteq> filename previous_pdf
          \<or> (document_id p \<noteq> document_id previous_pdf \<and> title p = title previous_pdf)
      | None \<Rightarrow> pt (title p) \<noteq> None)"

definition goes_to_new :: "(string \<rightharpoonup> pdf) \<Rightarrow> (string \<rightharpoonup> pdf) \<Rightarrow> pdf \<Rightarrow> bool" where
  "goes_to_new pu pt p = (pu (url p) = None \<and> pt (title p) = None)"

subsection \<open>Strings\<close>

text \<open>
  \<^verbatim>\<open>str.strip()\<close>, \<^verbatim>\<open>str.startswith\<close>, \<^verbatim>\<open>str.split(sep)\<close> and \<^verbatim>\<open>sep.join\<close> on
  strings whose characters are the code points 0 to 255. The white space of
  \<^verbatim>\<open>str.isspace\<close> in this range is 9 to 13, 28 to 32, 133 (U+0085) and 160 (U+00A0).
\<close>

definition isspace :: "char \<Rightarrow> bool" where
  "isspace c = (of_char c \<in> {9, 10, 11, 12, 13, 28, 29, 30, 31, 32, 133, 160 :: nat})"

definition strip :: "string \<Rightarrow> string" where
  "strip s = rev (dropWhile isspace (rev (dropWhile isspace s)))"

definition startswith :: "string \<Rightarrow> string \<Rightarrow> bool" where
  "startswith s p = (take (length p) s = p)"

text \<open>
  \<open>split_from sep acc s\<close> scans \<open>s\<close> from the left, \<open>acc\<close> holding the current
  piece reversed. Every separator in the source is a non-empty constant
  (\<^verbatim>\<open>';'\<close>, \<^verbatim>\<open>'='\<close>, \<^verbatim>\<open>"DocumentID="\<close>); Python raises \<^verbatim>\<open>ValueError\<close> for an empty one.
\<close>

fun split_from :: "string \<Rightarrow> string \<Rightarrow> string \<Rightarrow> string list" where
  "split_from sep acc [] = [rev acc]"
| "split_from sep acc (c # cs) =
     (if startswith (c # cs) sep
      then rev acc # split_from sep [] (drop (length sep - 1) cs)
      else split_from sep (c # acc) cs)"

definition split :: "string \<Rightarrow> string \<Rightarrow> string list" where
  "split s sep = split_from sep [] s"

fun join :: "string \<Rightarrow> string list \<Rightarrow> string" where
  "join sep [] = []"
| "join sep [x] = x"
| "join sep (x # y # ys) = x @ sep @ join sep (y # ys)"

text \<open>\<^verbatim>\<open>str(n)\<close> of an integer, as the f-strings of the announcements format it.\<close>

fun str_nat :: "nat \<Rightarrow> string" where
  "str_nat n =
     (if n < 10 then [''0123456789'' ! n]
      else str_nat (n div 10) @ [''0123456789'' ! (n mod 10)])"

definition str_int :: "int \<Rightarrow> string" where
  "str_int i = (if i < 0 then CHR ''-'' # str_nat (nat (- i)) else str_nat (nat i))"

text \<open>
  \<^verbatim>\<open>int(x)\<close> for the result of \<^verbatim>\<open>os.getenv\<close>: \<^verbatim>\<open>None\<close> raises \<^verbatim>\<open>TypeError\<close>. Of a
  string, \<^verbatim>\<open>int\<close> skips blanks at both ends, which are not the blanks of
  \<^verbatim>\<open>str.strip\<close>: below code point 127 only 9 to 13 and 32 (the separators 28 to
  31 are not skipped), above it the Unicode spaces 133 and 160. Then one sign may
  come, then a run of decimal digits with single underscores allowed between
  digits; anything else raises \<^verbatim>\<open>ValueError\<close>, and so do more than 4300 digits (the
  interpreter's default limit for the conversion).
\<close>

definition int_space :: "char \<Rightarrow> bool" where
  "int_space c = (of_char c \<in> {9, 10, 11, 12, 13, 32, 133, 160 :: nat})"

definition int_strip :: "string \<Rightarrow> string" where
  "int_strip s = rev (dropWhile int_space (rev (dropWhile int_space s)))"

definition isdigit :: "char \<Rightarrow> bool" where
  "isdigit c = (c \<in> set ''0123456789'')"

fun digits_ok :: "string \<Rightarrow> bool" where
  "digits_ok [] = False"
| "digits_ok [c] = isdigit c"
| "digits_ok (c # d # cs) =
     (isdigit c \<and> (if d = CHR ''_'' then digits_ok cs else digits_ok (d # cs)))"

definition digits_value :: "string \<Rightarrow> int" where
  "digits_value ds =
     foldl (\<lambda>a c. 10 * a + (of_char c - 48)) 0 (filter (\<lambda>c. c \<noteq> CHR ''_'') ds)"

definition max_str_digits :: nat where
  "max_str_digits = 4300"

definition py_int :: "string option \<Rightarrow> error + int" where
  "py_int v =
     (case v of
        None \<Rightarrow> Inl TypeError
      | Some s \<Rightarrow>
          (let t = int_strip s;
               neg = (t \<noteq> [] \<and> hd t = CHR ''-'');
               ds = (if t \<noteq> [] \<and> (hd t = CHR ''-'' \<or> hd t = CHR ''+'') then tl t else t)
           in if digits_ok ds \<and> length (filter isdigit ds) \<le> max_str_digits
              then Inr (if neg then - digits_value ds else digits_value ds)
              else Inl ValueError))"

subsection \<open>get\_metadata (lines 53 to 69)\<close>

text \<open>
  The loop over \<^verbatim>\<open>disposition.split(';')\<close>: the last part that starts with
  \<^verbatim>\<open>filename=\<close> wins. \<^verbatim>\<open>part.split('=')[1]\<close> raises \<^verbatim>\<open>IndexError\<close> on a list shorter
  than two.
\<close>

fun filename_parts :: "string list \<Rightarrow> string option \<Rightarrow> error + string option" where
  "filename_parts [] fn = Inr fn"
| "filename_parts (part # parts) fn =
     (if startswith (strip part) ''filename=''
      then (case split part ''='' of
              _ # x # _ \<Rightarrow> filename_parts parts (Some (strip x))
            | _ \<Rightarrow> Inl IndexError)
      else filename_parts parts fn)"

text \<open>
  The argument is what \<^verbatim>\<open>session.head(url)\<close> gives: an exception, or the value of
  \<^verbatim>\<open>response.headers.get("Content-Disposition")\<close>. The result is the \<^verbatim>\<open>filename\<close>
  entry of the returned dict; \<^verbatim>\<open>except Exception\<close> turns every exception into
  \<^verbatim>\<open>None\<close>.
\<close>

definition get_metadata :: "error + string option \<Rightarrow> string option" where
  "get_metadata response =
     (case response of
        Inl e \<Rightarrow> None
      | Inr None \<Rightarrow> None
      | Inr (Some disposition) \<Rightarrow>
          (if disposition = [] then None
           else (case filename_parts (split disposition '';'') None of
                   Inl e \<Rightarrow> None
                 | Inr fn \<Rightarrow> fn)))"

subsection \<open>The parsed page\<close>

text \<open>
  The tree that \<^verbatim>\<open>BeautifulSoup(html, "html.parser")\<close> builds: a node is a text
  node or a tag with its name, the list of its \<^verbatim>\<open>class\<close> attribute (bs4 keeps
  \<^verbatim>\<open>class\<close> as a list; empty when the attribute is absent, as
  \<^verbatim>\<open>sibling.get("class", [])\<close> reads it), its other attributes and its contents.
  Fetching the page and parsing the HTML text are outside the model: the soup is
  the list of the document's top-level nodes.
\<close>

datatype node =
    NavigableString string
  | Tag string "string list" "(string \<times> string) list" "node list"

fun is_tag :: "string \<Rightarrow> node \<Rightarrow> bool" where
  "is_tag nm (NavigableString s) = False"
| "is_tag nm (Tag n cl at ch) = (n = nm)"

fun classes :: "node \<Rightarrow> string list" where
  "classes (NavigableString s) = []"
| "classes (Tag n cl at ch) = cl"

fun attrs :: "node \<Rightarrow> (string \<rightharpoonup> string)" where
  "attrs (NavigableString s) = Map.empty"
| "attrs (Tag n cl at ch) = map_of at"

fun contents :: "node \<Rightarrow> node list" where
  "contents (NavigableString s) = []"
| "contents (Tag n cl at ch) = ch"

text \<open>The descendants of a node in document order, as \<^verbatim>\<open>find\<close> visits them.\<close>

fun descendants :: "node \<Rightarrow> node list" where
  "descendants (NavigableString s) = []"
| "descendants (Tag n cl at ch) = concat (map (\<lambda>c. c # descendants c) ch)"

text \<open>\<^verbatim>\<open>tag.find(...)\<close>: the first descendant that matches, or \<^verbatim>\<open>None\<close>.\<close>

definition find_tag :: "(node \<Rightarrow> bool) \<Rightarrow> node \<Rightarrow> node option" where
  "find_tag P n = List.find P (descendants n)"

text \<open>
  \<^verbatim>\<open>soup.find(...)\<close> over the whole document, returning the match together with
  the nodes that follow it under the same parent (what \<^verbatim>\<open>find_next_siblings\<close>
  walks).
\<close>

fun find_with_siblings :: "(node \<Rightarrow> bool) \<Rightarrow> node list \<Rightarrow> (node \<times> node list) option" where
  "find_with_siblings P [] = None"
| "find_with_siblings P (NavigableString s # ns) = find_with_siblings P ns"
| "find_with_siblings P (Tag n cl at ch # ns) =
     (if P (Tag n cl at ch) then Some (Tag n cl at ch, ns)
      else (case find_with_siblings P ch of
              Some r \<Rightarrow> Some r
            | None \<Rightarrow> find_with_siblings P ns))"

text \<open>
  \<^verbatim>\<open>first_cell.find(text=True, recursive=False)\<close>: the first text node among the
  direct children.
\<close>

fun find_text :: "node list \<Rightarrow> string option" where
  "find_text [] = None"
| "find_text (NavigableString s # ns) = Some s"
| "find_text (Tag n cl at ch # ns) = find_text ns"

fun strings :: "node list \<Rightarrow> string list" where
  "strings [] = []"
| "strings (NavigableString s # ns) = s # strings ns"
| "strings (Tag n cl at ch # ns) = strings ns"

text \<open>
  \<^verbatim>\<open>tag.get_text(strip=True)\<close>: every descendant string stripped, the empty ones
  dropped, joined without a separator.
\<close>

definition get_text_strip :: "node \<Rightarrow> string" where
  "get_text_strip n =
     concat (filter (\<lambda>s. s \<noteq> []) (map strip (strings (descendants n))))"

subsection \<open>scrape\_pdfs (lines 154 to 205)\<close>

definition is_ruleset_row :: "node \<Rightarrow> bool" where
  "is_ruleset_row n =
     (is_tag ''tr'' n \<and> attrs n ''data-folder-id'' = Some ''Ruleset and Resources'')"

text \<open>
  Lines 161 to 166: the following \<^verbatim>\<open>tr\<close> siblings up to, and without, the first
  one whose classes contain \<^verbatim>\<open>folder\<close>.
\<close>

definition collect_rows :: "node list \<Rightarrow> node list" where
  "collect_rows siblings =
     takeWhile (\<lambda>sibling. ''folder'' \<notin> set (classes sibling))
       (filter (is_tag ''tr'') siblings)"

text \<open>
  \<^verbatim>\<open>row.find("a", class_="btn btn-primary")\<close>: a class string with a blank in it
  matches a tag whose class list is exactly these two classes in this order.
\<close>

definition is_download_tag :: "node \<Rightarrow> bool" where
  "is_download_tag n = (is_tag ''a'' n \<and> classes n = [''btn'', ''btn-primary''])"

definition base_url :: string where
  "base_url = ''https://www.fsaeonline.com''"

text \<open>
  Lines 194 to 197: \<^verbatim>\<open>full_url.split("DocumentID=")[1]\<close>, and \<^verbatim>\<open>None\<close> on
  \<^verbatim>\<open>IndexError\<close>.
\<close>

definition doc_id_of :: "string \<Rightarrow> string option" where
  "doc_id_of full_url =
     (case split full_url ''DocumentID='' of
        _ # x # _ \<Rightarrow> Some x
      | _ \<Rightarrow> None)"

text \<open>
  The loop of lines 171 to 203 with \<^verbatim>\<open>links\<close> as the state. \<^verbatim>\<open>row.find("td")\<close> is
  \<^verbatim>\<open>None\<close> when the row has no cell, and \<^verbatim>\<open>None.find\<close> raises \<^verbatim>\<open>AttributeError\<close>;
  so does \<^verbatim>\<open>None.strip()\<close> when the cell has no direct text node.
\<close>

fun scrape_rows :: "node list \<Rightarrow> link list \<Rightarrow> error + link list" where
  "scrape_rows [] links = Inr links"
| "scrape_rows (row # rows) links =
     (case find_tag (is_tag ''td'') row of
        None \<Rightarrow> Inl AttributeError
      | Some first_cell \<Rightarrow>
          (case find_text (contents first_cell) of
             None \<Rightarrow> Inl AttributeError
           | Some text \<Rightarrow>
               (let main_title = strip text;
                    desc_text = (case find_tag (is_tag ''span'') first_cell of
                                   Some desc_tag \<Rightarrow> get_text_strip desc_tag
                                 | None \<Rightarrow> []);
                    final_title = (if desc_text \<noteq> []
                                   then main_title @ '' ('' @ desc_text @ '')''
                                   else main_title)
                in (case find_tag is_download_tag row of
                      None \<Rightarrow> scrape_rows rows links
                    | Some download_tag \<Rightarrow>
                        (case attrs download_tag ''href'' of
                           None \<Rightarrow> scrape_rows rows links
                         | Some download_url \<Rightarrow>
                             (let full_url = base_url @ download_url
                              in scrape_rows rows
                                   (links @ [\<lparr>title = final_title, url = full_url,
                                              document_id = doc_id_of full_url\<rparr>])))))))"

text \<open>
  The result is \<open>Inr None\<close> for the bare \<^verbatim>\<open>return\<close> of line 158 (Python's
  \<^verbatim>\<open>None\<close>), \<open>Inr (Some links)\<close> for \<^verbatim>\<open>return links\<close>.
\<close>

definition scrape_pdfs :: "node list \<Rightarrow> error + link list option" where
  "scrape_pdfs soup =
     (case find_with_siblings is_ruleset_row soup of
        None \<Rightarrow> Inr None
      | Some (ruleset_row, siblings) \<Rightarrow>
          (case scrape_rows (collect_rows siblings) [] of
             Inl e \<Rightarrow> Inl e
           | Inr links \<Rightarrow> Inr (Some links)))"

subsection \<open>The json module\<close>

text \<open>
  The two functions of Python's \<^verbatim>\<open>json\<close> module that \<open>save_data\<close> and \<open>load_data\<close>
  call, on texts whose characters are the code points 0 to 255.
\<close>

text \<open>
  The text that \<^verbatim>\<open>json.dump(data, f, indent=4)\<close> writes for a list of records
  (\<^verbatim>\<open>ensure_ascii\<close> is on: a character outside the range from blank to tilde is
  written as an escape).
\<close>

definition hex_digit :: "nat \<Rightarrow> char" where
  "hex_digit n = ''0123456789abcdef'' ! n"

definition escape_char :: "char \<Rightarrow> string" where
  "escape_char c =
     (if c = CHR 0x22 then [CHR 0x5C, CHR 0x22]
      else if c = CHR 0x5C then [CHR 0x5C, CHR 0x5C]
      else if c = CHR 0x0A then [CHR 0x5C, CHR ''n'']
      else if c = CHR 0x0D then [CHR 0x5C, CHR ''r'']
      else if c = CHR 0x09 then [CHR 0x5C, CHR ''t'']
      else if c = CHR 0x08 then [CHR 0x5C, CHR ''b'']
      else if c = CHR 0x0C then [CHR 0x5C, CHR ''f'']
      else if 32 \<le> (of_char c :: nat) \<and> (of_char c :: nat) \<le> 126 then [c]
      else [CHR 0x5C, CHR ''u'', CHR ''0'', CHR ''0'',
            hex_digit (of_char c div 16), hex_digit (of_char c mod 16)])"

definition json_string :: "string \<Rightarrow> string" where
  "json_string s = [CHR 0x22] @ concat (map escape_char s) @ [CHR 0x22]"

definition json_value :: "string option \<Rightarrow> string" where
  "json_value v = (case v of None \<Rightarrow> ''null'' | Some s \<Rightarrow> json_string s)"

definition json_member :: "string \<Rightarrow> string \<Rightarrow> string" where
  "json_member key v = ''        '' @ json_string key @ '': '' @ v"

definition json_object :: "pdf \<Rightarrow> string" where
  "json_object p =
     ''    {\<newline>''
     @ join '',\<newline>''
         [json_member ''title'' (json_string (title p)),
          json_member ''url'' (json_string (url p)),
          json_member ''document_id'' (json_value (document_id p)),
          json_member ''filename'' (json_value (filename p))]
     @ ''\<newline>    }''"

definition dump_indent4 :: "pdf list \<Rightarrow> string" where
  "dump_indent4 data =
     (if data = [] then ''[]''
      else ''[\<newline>'' @ join '',\<newline>'' (map json_object data) @ ''\<newline>]'')"

text \<open>
  \<^verbatim>\<open>json.load\<close>: the value of a JSON document, or \<^verbatim>\<open>JSONDecodeError\<close>. A number is
  kept as its literal. First the text is cut into tokens; blanks (space, tab,
  line feed, carriage return) may stand between any two tokens.
\<close>

datatype json =
    JNull
  | JBool bool
  | JNumber string
  | JString string
  | JArray "json list"
  | JObject "(string \<times> json) list"

datatype token =
    LBracket | RBracket | LBrace | RBrace | Comma | Colon
  | StringT string | NumberT string | TrueT | FalseT | NullT

definition json_ws :: "char \<Rightarrow> bool" where
  "json_ws c = (c = CHR '' '' \<or> c = CHR 0x09 \<or> c = CHR 0x0A \<or> c = CHR 0x0D)"

definition hex_value :: "char \<Rightarrow> nat option" where
  "hex_value c =
     (let n = (of_char c :: nat)
      in if 48 \<le> n \<and> n \<le> 57 then Some (n - 48)
         else if 97 \<le> n \<and> n \<le> 102 then Some (n - 87)
         else if 65 \<le> n \<and> n \<le> 70 then Some (n - 55)
         else None)"

definition unescape :: "char \<Rightarrow> char option" where
  "unescape e =
     (if e = CHR 0x22 then Some (CHR 0x22)
      else if e = CHR 0x5C then Some (CHR 0x5C)
      else if e = CHR ''/'' then Some (CHR ''/'')
      else if e = CHR ''b'' then Some (CHR 0x08)
      else if e = CHR ''f'' then Some (CHR 0x0C)
      else if e = CHR ''n'' then Some (CHR 0x0A)
      else if e = CHR ''r'' then Some (CHR 0x0D)
      else if e = CHR ''t'' then Some (CHR 0x09)
      else None)"

definition code_point :: "char \<Rightarrow> char \<Rightarrow> char \<Rightarrow> char \<Rightarrow> nat option" where
  "code_point a b c d =
     (case (hex_value a, hex_value b, hex_value c, hex_value d) of
        (Some h3, Some h2, Some h1, Some h0) \<Rightarrow> Some (((h3 * 16 + h2) * 16 + h1) * 16 + h0)
      | _ \<Rightarrow> None)"

text \<open>
  A string literal after its opening quote: the decoded string and the text after
  the closing quote. A control character below 32 is not allowed inside; an
  escape is one of the eight short ones or \<^verbatim>\<open>\uXXXX\<close> with four hexadecimal
  digits.
\<close>

fun scan_string :: "string \<Rightarrow> string \<Rightarrow> error + string \<times> string" where
  "scan_string [] acc = Inl JSONDecodeError"
| "scan_string (c # cs) acc =
     (if c = CHR 0x22 then Inr (rev acc, cs)
      else if c = CHR 0x5C then
        (case cs of
           [] \<Rightarrow> Inl JSONDecodeError
         | e # es \<Rightarrow>
             if e = CHR ''u'' then
               (case es of
                  a # b # c' # d # rest \<Rightarrow>
                    (case code_point a b c' d of
                       None \<Rightarrow> Inl JSONDecodeError
                     | Some n \<Rightarrow>
                         if n < 256 then scan_string rest (char_of n # acc)
                         else Inl Unrepresentable)
                | _ \<Rightarrow> Inl JSONDecodeError)
             else (case unescape e of
                     None \<Rightarrow> Inl JSONDecodeError
                   | Some x \<Rightarrow> scan_string es (x # acc)))
      else if (of_char c :: nat) < 32 then Inl JSONDecodeError
      else scan_string cs (c # acc))"

text \<open>
  A number literal at the start of a text: an optional minus, \<^verbatim>\<open>0\<close> or a run of
  digits that does not start with \<^verbatim>\<open>0\<close>, then an optional fraction and an optional
  exponent, each taken only when complete. The empty result means that no number
  starts here.
\<close>

definition scan_digits :: "string \<Rightarrow> string" where
  "scan_digits s = takeWhile isdigit s"

definition scan_int :: "string \<Rightarrow> string" where
  "scan_int s =
     (case s of
        [] \<Rightarrow> []
      | c # cs \<Rightarrow> if c = CHR ''0'' then ''0''
                 else if isdigit c then c # scan_digits cs
                 else [])"

definition scan_frac :: "string \<Rightarrow> string" where
  "scan_frac s =
     (case s of
        c # d # ds \<Rightarrow> if c = CHR ''.'' \<and> isdigit d then c # d # scan_digits ds else []
      | _ \<Rightarrow> [])"

definition scan_exp :: "string \<Rightarrow> string" where
  "scan_exp s =
     (case s of
        [] \<Rightarrow> []
      | e # r \<Rightarrow>
          if e = CHR ''e'' \<or> e = CHR ''E'' then
            (case r of
               [] \<Rightarrow> []
             | g # ds \<Rightarrow>
                 if g = CHR ''+'' \<or> g = CHR ''-'' then
                   (if ds \<noteq> [] \<and> isdigit (hd ds) then e # g # scan_digits ds else [])
                 else if isdigit g then e # scan_digits r
                 else [])
          else [])"

definition scan_number :: "string \<Rightarrow> string" where
  "scan_number s =
     (let sgn = (if s \<noteq> [] \<and> hd s = CHR ''-'' then ''-'' else []);
          s1 = drop (length sgn) s;
          i = scan_int s1
      in if i = [] then []
         else (let s2 = drop (length i) s1;
                   f = scan_frac s2;
                   x = scan_exp (drop (length f) s2)
               in sgn @ i @ f @ x))"

text \<open>
  An integer literal (no fraction, no exponent) is converted by \<^verbatim>\<open>int\<close>, which
  raises \<^verbatim>\<open>ValueError\<close> beyond the limit on the number of digits.
\<close>

definition too_long_int :: "string \<Rightarrow> bool" where
  "too_long_int n =
     (list_all (\<lambda>c. isdigit c \<or> c = CHR ''-'') n \<and> length (filter isdigit n) > max_str_digits)"

definition cons_token :: "token \<Rightarrow> error + token list \<Rightarrow> error + token list" where
  "cons_token t r = (case r of Inl e \<Rightarrow> Inl e | Inr ts \<Rightarrow> Inr (t # ts))"

function lex :: "string \<Rightarrow> error + token list" where
  "lex [] = Inr []"
| "lex (c # cs) =
     (if json_ws c then lex cs
      else if c = CHR ''['' then cons_token LBracket (lex cs)
      else if c = CHR '']'' then cons_token RBracket (lex cs)
      else if c = CHR ''{'' then cons_token LBrace (lex cs)
      else if c = CHR ''}'' then cons_token RBrace (lex cs)
      else if c = CHR '','' then cons_token Comma (lex cs)
      else if c = CHR '':'' then cons_token Colon (lex cs)
      else if c = CHR 0x22 then
        (case scan_string cs [] of
           Inl e \<Rightarrow> Inl e
         | Inr (s, rest) \<Rightarrow> cons_token (StringT s) (lex rest))
      else if startswith (c # cs) ''null'' then cons_token NullT (lex (drop 3 cs))
      else if startswith (c # cs) ''true'' then cons_token TrueT (lex (drop 3 cs))
      else if startswith (c # cs) ''false'' then cons_token FalseT (lex (drop 4 cs))
      else if startswith (c # cs) ''NaN'' then cons_token (NumberT ''NaN'') (lex (drop 2 cs))
      else if startswith (c # cs) ''Infinity''
      then cons_token (NumberT ''Infinity'') (lex (drop 7 cs))
      else if startswith (c # cs) ''-Infinity''
      then cons_token (NumberT ''-Infinity'') (lex (drop 8 cs))
      else (let n = scan_number (c # cs)
            in if n = [] then Inl JSONDecodeError
               else if too_long_int n then Inl ValueError
               else cons_token (NumberT n) (lex (drop (length n - 1) cs))))"
  by pat_completeness auto
termination
proof (relation "measure length", goal_cases)
  case 1
  show ?case by simp
next
  case (9 c cs x2 s rest)
  have shorter: "scan_string xs acc = Inr (s', rest') \<Longrightarrow> length rest' \<le> length xs"
    for xs acc s' rest'
    by (induction xs acc rule: scan_string.induct)
       (force split: if_splits list.splits option.splits)+
  from 9 shorter [of cs "[]" s rest] show ?case by simp
qed simp_all

text \<open>
  The tokens are read one at a time, with the containers that are still open on a
  stack (innermost first, their elements and members in reverse) and a mode that
  says what may come next: a value; a value or \<^verbatim>\<open>]\<close> after \<^verbatim>\<open>[\<close>; a key or \<^verbatim>\<open>}\<close>
  after \<^verbatim>\<open>{\<close>; a key after a comma; the colon after a key; a comma or the closing
  bracket after a value; nothing after the value of the document.
\<close>

datatype frame =
    InArray "json list"
  | InObject "(string \<times> json) list"
  | InMember "(string \<times> json) list" string

datatype mode = Value | FirstValue | FirstKey | Key | ColonM | After | End json

definition scalar :: "token \<Rightarrow> json option" where
  "scalar t =
     (case t of
        StringT s \<Rightarrow> Some (JString s)
      | NumberT n \<Rightarrow> Some (JNumber n)
      | TrueT \<Rightarrow> Some (JBool True)
      | FalseT \<Rightarrow> Some (JBool False)
      | NullT \<Rightarrow> Some JNull
      | _ \<Rightarrow> None)"

definition reduce :: "json \<Rightarrow> frame list \<Rightarrow> (mode \<times> frame list) option" where
  "reduce v stack =
     (case stack of
        [] \<Rightarrow> Some (End v, [])
      | InArray xs # st \<Rightarrow> Some (After, InArray (v # xs) # st)
      | InMember ms k # st \<Rightarrow> Some (After, InObject ((k, v) # ms) # st)
      | InObject ms # st \<Rightarrow> None)"

definition start_value :: "token \<Rightarrow> frame list \<Rightarrow> (mode \<times> frame list) option" where
  "start_value t stack =
     (if t = LBracket then Some (FirstValue, InArray [] # stack)
      else if t = LBrace then Some (FirstKey, InObject [] # stack)
      else (case scalar t of Some v \<Rightarrow> reduce v stack | None \<Rightarrow> None))"

definition start_key :: "token \<Rightarrow> frame list \<Rightarrow> (mode \<times> frame list) option" where
  "start_key t stack =
     (case (t, stack) of
        (StringT k, InObject ms # st) \<Rightarrow> Some (ColonM, InMember ms k # st)
      | _ \<Rightarrow> None)"

definition step :: "mode \<Rightarrow> frame list \<Rightarrow> token \<Rightarrow> (mode \<times> frame list) option" where
  "step m stack t =
     (case m of
        Value \<Rightarrow> start_value t stack
      | FirstValue \<Rightarrow>
          (case (t, stack) of
             (RBracket, InArray xs # st) \<Rightarrow> reduce (JArray (rev xs)) st
           | _ \<Rightarrow> start_value t stack)
      | FirstKey \<Rightarrow>
          (case (t, stack) of
             (RBrace, InObject ms # st) \<Rightarrow> reduce (JObject (rev ms)) st
           | _ \<Rightarrow> start_key t stack)
      | Key \<Rightarrow> start_key t stack
      | ColonM \<Rightarrow> (if t = Colon then Some (Value, stack) else None)
      | After \<Rightarrow>
          (case (t, stack) of
             (Comma, InArray xs # st) \<Rightarrow> Some (Value, stack)
           | (RBracket, InArray xs # st) \<Rightarrow> reduce (JArray (rev xs)) st
           | (Comma, InObject ms # st) \<Rightarrow> Some (Key, stack)
           | (RBrace, InObject ms # st) \<Rightarrow> reduce (JObject (rev ms)) st
           | _ \<Rightarrow> None)
      | End v \<Rightarrow> None)"

fun run :: "mode \<Rightarrow> frame list \<Rightarrow> token list \<Rightarrow> json option" where
  "run m stack [] = (case m of End v \<Rightarrow> Some v | _ \<Rightarrow> None)"
| "run m stack (t # ts) =
     (case step m stack t of
        None \<Rightarrow> None
      | Some (m', stack') \<Rightarrow> run m' stack' ts)"

definition parse_json :: "string \<Rightarrow> error + json" where
  "parse_json text =
     (case lex text of
        Inl e \<Rightarrow> Inl e
      | Inr ts \<Rightarrow> (case run Value [] ts of None \<Rightarrow> Inl JSONDecodeError | Some v \<Rightarrow> Inr v))"

text \<open>
  The value read as a list of records. An object is a dict: of two members with
  the same key the later one counts. The code reads \<^verbatim>\<open>pdf['url']\<close> and
  \<^verbatim>\<open>pdf['title']\<close>, and \<^verbatim>\<open>.get('document_id')\<close> and \<^verbatim>\<open>.get('filename')\<close>, for which an
  absent key is \<^verbatim>\<open>None\<close>; other members are never read. A value of another shape
  has no counterpart in the record type.
\<close>

definition optional_string :: "json option \<Rightarrow> string option option" where
  "optional_string v =
     (case v of
        None \<Rightarrow> Some None
      | Some JNull \<Rightarrow> Some None
      | Some (JString s) \<Rightarrow> Some (Some s)
      | _ \<Rightarrow> None)"

definition record_of :: "json \<Rightarrow> pdf option" where
  "record_of v =
     (case v of
        JObject ms \<Rightarrow>
          (let d = map_of (rev ms)
           in (case (d ''title'', d ''url'',
                     optional_string (d ''document_id''), optional_string (d ''filename'')) of
                 (Some (JString t), Some (JString u), Some i, Some f) \<Rightarrow>
                   Some \<lparr>title = t, url = u, document_id = i, filename = f\<rparr>
               | _ \<Rightarrow> None))
      | _ \<Rightarrow> None)"

fun all_records :: "json list \<Rightarrow> pdf list option" where
  "all_records [] = Some []"
| "all_records (v # vs) =
     (case record_of v of
        None \<Rightarrow> None
      | Some p \<Rightarrow> (case all_records vs of None \<Rightarrow> None | Some ps \<Rightarrow> Some (p # ps)))"

definition records_of :: "json \<Rightarrow> error + pdf list" where
  "records_of v =
     (case v of
        JArray vs \<Rightarrow> (case all_records vs of None \<Rightarrow> Inl Unrepresentable | Some ps \<Rightarrow> Inr ps)
      | _ \<Rightarrow> Inl Unrepresentable)"

definition json_loads :: "string \<Rightarrow> error + pdf list" where
  "json_loads text =
     (case parse_json text of
        Inl e \<Rightarrow> Inl e
      | Inr v \<Rightarrow> records_of v)"

subsection \<open>The document of a list of records\<close>





text \<open>Several tokens put in front of the tokens of the rest of a text.\<close>

definition prepend :: "token list \<Rightarrow> error + token list \<Rightarrow> error + token list" where
  "prepend ts r = foldr cons_token ts r"



subsection \<open>The cache file and the outside world\<close>

text \<open>
  \<^verbatim>\<open>DATA_FILE\<close> as \<^verbatim>\<open>open(DATA_FILE, "r")\<close> finds it: absent, or \<^verbatim>\<open>open\<close> raises an
  \<^verbatim>\<open>OSError\<close> on it (no permission to read, a directory), or it holds a text.
\<close>

datatype file_state = Missing | Inaccessible error | Content string

text \<open>
  What happens to \<^verbatim>\<open>open(DATA_FILE, "w")\<close> and the write that follows it, whatever
  the file was for a reader (an absent file in a directory without write
  permission, a read-only file): \<^verbatim>\<open>open\<close> raises; or the file is opened, which
  empties it, and the write raises after that many characters; or all is written.
\<close>

datatype write_outcome = WriteOk | OpenFails error | WriteFails error nat

text \<open>
  What a cycle can change: the cache file and the messages sent so far, each with
  the identifier of its channel.
\<close>

record world =
  data_file :: file_state
  sent :: "(int \<times> string) list"

text \<open>
  What a cycle reads from outside the repository: the \<^verbatim>\<open>json\<close> module
  (\<^verbatim>\<open>json.dump(data, f, indent=4)\<close> as the text it writes, \<^verbatim>\<open>json.load\<close> as the list
  of records it reads or the exception it raises; \<open>dump_indent4\<close> and \<open>json_loads\<close>
  above are the module as Python has it), the parsed page, the answer of
  \<^verbatim>\<open>session.head(url)\<close> for each URL (an exception, or the
  \<^verbatim>\<open>Content-Disposition\<close> header if there is one), the process environment,
  whether \<^verbatim>\<open>bot.get_channel\<close> resolves an identifier, and how the write of the
  cache file goes.
\<close>

record env =
  json_dump :: "pdf list \<Rightarrow> string"
  json_load :: "string \<Rightarrow> error + pdf list"
  write_outcome :: write_outcome
  soup :: "node list"
  head_response :: "string \<Rightarrow> error + string option"
  getenv :: "string \<Rightarrow> string option"
  get_channel :: "int \<Rightarrow> bool"

subsection \<open>save\_data and load\_data (lines 40 to 51)\<close>

text \<open>
  The file after a text was written to it. Writing does not make a file readable
  that \<^verbatim>\<open>open(DATA_FILE, "r")\<close> refuses for another reason than its absence.
\<close>

definition written :: "file_state \<Rightarrow> string \<Rightarrow> file_state" where
  "written f text =
     (case f of
        Inaccessible e \<Rightarrow> if e = FileNotFoundError then Content text else Inaccessible e
      | _ \<Rightarrow> Content text)"

text \<open>
  \<^verbatim>\<open>with open(DATA_FILE, "w", encoding="utf-8") as f: json.dump(data, f, indent=4)\<close>:
  the exception, if any, and the world afterwards.
\<close>

definition save_data :: "env \<Rightarrow> pdf list \<Rightarrow> world \<Rightarrow> (error + unit) \<times> world" where
  "save_data E data w =
     (case write_outcome E of
        OpenFails e \<Rightarrow> (Inl e, w)
      | WriteFails e n \<Rightarrow>
          (Inl e, w\<lparr>data_file := written (data_file w) (take n (json_dump E data))\<rparr>)
      | WriteOk \<Rightarrow>
          (Inr (), w\<lparr>data_file := written (data_file w) (json_dump E data)\<rparr>))"

text \<open>The body of the \<^verbatim>\<open>try\<close>: \<^verbatim>\<open>open(DATA_FILE, "r")\<close> and \<^verbatim>\<open>json.load(f)\<close>.\<close>

definition read_data :: "env \<Rightarrow> world \<Rightarrow> error + pdf list" where
  "read_data E w =
     (case data_file w of
        Missing \<Rightarrow> Inl FileNotFoundError
      | Inaccessible e \<Rightarrow> Inl e
      | Content text \<Rightarrow> json_load E text)"

text \<open>\<^verbatim>\<open>except FileNotFoundError: return []\<close>; any other exception leaves the function.\<close>

definition load_data :: "env \<Rightarrow> world \<Rightarrow> error + pdf list" where
  "load_data E w =
     (case read_data E w of
        Inl e \<Rightarrow> if e = FileNotFoundError then Inr [] else Inl e
      | Inr data \<Rightarrow> Inr data)"

subsection \<open>check\_for\_updates (lines 72 to 136)\<close>

text \<open>Lines 79 to 81: \<^verbatim>\<open>pdf['filename'] = metadata.get('filename')\<close>.\<close>

definition attach_filename :: "env \<Rightarrow> link \<Rightarrow> pdf" where
  "attach_filename E l =
     \<lparr>title = title l, url = url l, document_id = document_id l,
      filename = get_metadata (head_response E (url l))\<rparr>"

definition new_message :: "int \<Rightarrow> pdf list \<Rightarrow> string" where
  "new_message ROLE_ID new_pdfs =
     join ''\<newline>''
       ((''<@&'' @ str_int ROLE_ID @ ''> **New FSAE Rules Posted:**\<newline>'')
        # map (\<lambda>p. ''> **'' @ title p @ '':**\<newline>> '' @ url p) new_pdfs)"

definition modified_message :: "int \<Rightarrow> pdf list \<Rightarrow> string" where
  "modified_message ROLE_ID modified_pdfs =
     join ''\<newline>''
       ((''<@&'' @ str_int ROLE_ID @ ''> **FSAE Rules Have Been Updated:**\<newline>'')
        # map (\<lambda>p. ''> **'' @ title p @ '':** **(Updated)**\<newline>> '' @ url p) modified_pdfs)"

text \<open>\<^verbatim>\<open>await channel.send(text)\<close> on the channel that \<^verbatim>\<open>CHANNEL_ID\<close> resolved to.\<close>

definition send :: "int \<Rightarrow> string \<Rightarrow> world \<Rightarrow> world" where
  "send CHANNEL_ID text w = w\<lparr>sent := sent w @ [(CHANNEL_ID, text)]\<rparr>"

text \<open>Lines 117 to 131, once the channel is resolved.\<close>

definition announce :: "int \<Rightarrow> int \<Rightarrow> pdf list \<Rightarrow> pdf list \<Rightarrow> world \<Rightarrow> world" where
  "announce CHANNEL_ID ROLE_ID new_pdfs modified_pdfs w =
     (let w1 = (if new_pdfs \<noteq> [] then send CHANNEL_ID (new_message ROLE_ID new_pdfs) w else w)
      in if modified_pdfs \<noteq> []
         then send CHANNEL_ID (modified_message ROLE_ID modified_pdfs) w1
         else w1)"

text \<open>
  Lines 105 to 136, after the comparison. \<^verbatim>\<open>int(os.getenv(...))\<close> raises on an
  unset or malformed variable; \<^verbatim>\<open>not CHANNEL_ID\<close> holds for the integer 0 only. Both
  \<^verbatim>\<open>return\<close> statements (lines 109 and 115) leave the function before line 136,
  \<^verbatim>\<open>self.save_data(current_pdfs)\<close>, which is the last statement otherwise.
\<close>

definition notify_and_save ::
  "env \<Rightarrow> pdf list \<Rightarrow> pdf list \<Rightarrow> pdf list \<Rightarrow> world \<Rightarrow> (error + unit) \<times> world"
where
  "notify_and_save E current_pdfs new_pdfs modified_pdfs w =
     (case py_int (getenv E ''CHANNEL_ID'') of
        Inl e \<Rightarrow> (Inl e, w)
      | Inr CHANNEL_ID \<Rightarrow>
          (case py_int (getenv E ''ROLE_ID'') of
             Inl e \<Rightarrow> (Inl e, w)
           | Inr ROLE_ID \<Rightarrow>
               if CHANNEL_ID = 0 \<or> ROLE_ID = 0 then (Inr (), w)
               else if new_pdfs \<noteq> [] \<or> modified_pdfs \<noteq> []
               then (if \<not> get_channel E CHANNEL_ID then (Inr (), w)
                     else save_data E current_pdfs
                            (announce CHANNEL_ID ROLE_ID new_pdfs modified_pdfs w))
               else save_data E current_pdfs w))"

text \<open>
  One cycle. An exception leaves the cycle where it is raised;
  \<^verbatim>\<open>for pdf in current_pdfs\<close> raises \<^verbatim>\<open>TypeError\<close> when \<^verbatim>\<open>scrape_pdfs\<close> returned
  \<^verbatim>\<open>None\<close>.
\<close>

definition check_for_updates :: "env \<Rightarrow> world \<Rightarrow> (error + unit) \<times> world" where
  "check_for_updates E w =
     (case load_data E w of
        Inl e \<Rightarrow> (Inl e, w)
      | Inr previous_pdfs \<Rightarrow>
          (case scrape_pdfs (soup E) of
             Inl e \<Rightarrow> (Inl e, w)
           | Inr None \<Rightarrow> (Inl TypeError, w)
           | Inr (Some links) \<Rightarrow>
               (let current_pdfs = map (attach_filename E) links;
                    (new_pdfs, modified_pdfs) = compare_pdfs previous_pdfs current_pdfs
                in notify_and_save E current_pdfs new_pdfs modified_pdfs w)))"

subsection \<open>Example inputs\<close>

definition rules_a :: pdf where
  "rules_a = \<lparr>title = ''Rules'', url = ''u1'', document_id = Some ''5'',
              filename = Some ''a.pdf''\<rparr>"

definition rules_b :: pdf where
  "rules_b = \<lparr>title = ''Rules'', url = ''u1'', document_id = Some ''5'',
              filename = Some ''b.pdf''\<rparr>"

definition rules2_a :: pdf where
  "rules2_a = \<lparr>title = ''Rules2'', url = ''u1'', document_id = Some ''9'',
               filename = Some ''a.pdf''\<rparr>"

definition rules_moved :: pdf where
  "rules_moved = \<lparr>title = ''Rules'', url = ''u2'', document_id = None,
                  filename = None\<rparr>"

definition new_doc :: pdf where
  "new_doc = \<lparr>title = ''New Doc'', url = ''u9'', document_id = None, filename = None\<rparr>"

text \<open>
  A page with the marker row, one document row and the next folder row.
\<close>

definition marker_row :: node where
  "marker_row =
     Tag ''tr'' [''folder''] [(''data-folder-id'', ''Ruleset and Resources'')] []"

definition document_row :: node where
  "document_row =
     Tag ''tr'' [] []
       [Tag ''td'' [] []
          [NavigableString '' Rules '',
           Tag ''span'' [] [] [NavigableString ''2025'']],
        Tag ''td'' [] []
          [Tag ''a'' [''btn'', ''btn-primary'']
             [(''href'', ''/cdsweb/gen/DownloadDocument.aspx?DocumentID=5'')] []]]"

definition other_folder_row :: node where
  "other_folder_row = Tag ''tr'' [''folder''] [(''data-folder-id'', ''Other'')] []"

definition example_page :: "node list" where
  "example_page = [Tag ''table'' [] [] [marker_row, document_row, other_folder_row]]"

text \<open>A page without the marker row.\<close>

definition no_marker_page :: "node list" where
  "no_marker_page = [Tag ''table'' [] [] [other_folder_row, document_row]]"

text \<open>
  Two pages with the marker row and a following row that has no cell, or whose
  first cell holds a tag only.
\<close>

definition row_without_cell :: node where
  "row_without_cell = Tag ''tr'' [] [] []"

definition row_without_text :: node where
  "row_without_text =
     Tag ''tr'' [] [] [Tag ''td'' [] [] [Tag ''b'' [] [] [NavigableString ''Rules'']]]"

definition page_without_cell :: "node list" where
  "page_without_cell = [Tag ''table'' [] [] [marker_row, row_without_cell]]"

definition page_without_text :: "node list" where
  "page_without_text = [Tag ''table'' [] [] [marker_row, row_without_text]]"


text \<open>
  An environment with the \<^verbatim>\<open>json\<close> module as modelled above, both identifiers set,
  whose channel 12 resolves, whose server answers every HEAD request with the same
  header and where the cache file can be written.
\<close>

definition example_env :: env where
  "example_env =
     \<lparr>json_dump = dump_indent4, json_load = json_loads, write_outcome = WriteOk,
      soup = example_page,
      head_response = (\<lambda>u. Inr (Some ''attachment; filename=rules.pdf'')),
      getenv = [''CHANNEL_ID'' \<mapsto> ''12'', ''ROLE_ID'' \<mapsto> ''34''],
      get_channel = (\<lambda>c. c = 12)\<rparr>"


definition first_run :: world where
  "first_run = \<lparr>data_file = Missing, sent = []\<rparr>"

definition locked_file :: world where
  "locked_file = \<lparr>data_file = Inaccessible PermissionError, sent = []\<rparr>"


definition zero_env :: env where
  "zero_env = example_env\<lparr>getenv := [''CHANNEL_ID'' \<mapsto> ''0'', ''ROLE_ID'' \<mapsto> ''34'']\<rparr>"

definition no_marker_env :: env where
  "no_marker_env = example_env\<lparr>soup := no_marker_page\<rparr>"



definition document_link :: link where
  "document_link =
     \<lparr>title = ''Rules (2025)'',
      url = ''https://www.fsaeonline.com/cdsweb/gen/DownloadDocument.aspx?DocumentID=5'',
      document_id = Some ''5''\<rparr>"

section \<open>Properties of the comparison\<close>

lemma compare_loop_filter:
  "compare_loop pu pt cur (n, m) =
     (n @ filter (goes_to_new pu pt) cur, m @ filter (goes_to_modified pu pt) cur)"
  by (induction cur arbitrary: n m)
     (auto simp: goes_to_new_def goes_to_modified_def split: option.splits)

lemma compare_pdfs_filter:
  "compare_pdfs prev cur =
     (filter (goes_to_new (previous_urls prev) (previous_titles prev)) cur,
      filter (goes_to_modified (previous_urls prev) (previous_titles prev)) cur)"
  by (simp add: compare_pdfs_def compare_loop_filter)

lemma goes_to_new_not_modified: "goes_to_new pu pt p \<Longrightarrow> \<not> goes_to_modified pu pt p"
  by (simp add: goes_to_new_def goes_to_modified_def)

lemma fold_upd_dom:
  "dom (fold (\<lambda>p m. m(k p \<mapsto> p)) xs m0) = dom m0 \<union> k ` set xs"
  by (induction xs arbitrary: m0) auto

lemma fold_upd_Some:
  "fold (\<lambda>p m. m(k p \<mapsto> p)) xs m0 u = Some q \<Longrightarrow> m0 u = Some q \<or> (q \<in> set xs \<and> k q = u)"
proof (induction xs arbitrary: m0)
  case Nil
  then show ?case by simp
next
  case (Cons a xs)
  from Cons.prems have "fold (\<lambda>p m. m(k p \<mapsto> p)) xs (m0(k a \<mapsto> a)) u = Some q"
    by (simp only: fold_simps)
  from Cons.IH [OF this] show ?case
    by (cases "k a = u") auto
qed

lemma dom_previous_urls: "dom (previous_urls prev) = url ` set prev"
  by (simp add: previous_urls_def fold_upd_dom)

lemma dom_previous_titles: "dom (previous_titles prev) = title ` set prev"
  by (simp add: previous_titles_def fold_upd_dom)

lemma previous_urls_Some:
  "previous_urls prev u = Some q \<Longrightarrow> q \<in> set prev \<and> url q = u"
  using fold_upd_Some [of url prev Map.empty u q] by (simp add: previous_urls_def)

lemma previous_urls_single: "previous_urls [q] = [url q \<mapsto> q]"
  by (simp add: previous_urls_def)

lemma previous_titles_single: "previous_titles [q] = [title q \<mapsto> q]"
  by (simp add: previous_titles_def)

lemmas example_pdfs =
  rules_a_def rules_b_def rules2_a_def rules_moved_def new_doc_def

text \<open>
  C3. For every previous and current list, the new and the modified list share no
  record, each is a subsequence of the current list (same order, nothing added),
  and every element of either is an element of the current list.
\<close>

theorem compare_pdfs_disjoint_subsequences:
  "set (fst (compare_pdfs prev cur)) \<inter> set (snd (compare_pdfs prev cur)) = {}
   \<and> subseq (fst (compare_pdfs prev cur)) cur
   \<and> subseq (snd (compare_pdfs prev cur)) cur
   \<and> set (fst (compare_pdfs prev cur)) \<subseteq> set cur
   \<and> set (snd (compare_pdfs prev cur)) \<subseteq> set cur"
  by (auto simp: compare_pdfs_filter dest: goes_to_new_not_modified)

theorem compare_pdfs_disjoint_subsequences_witness:
  "compare_pdfs [rules_a] [rules_b, new_doc] = ([new_doc], [rules_b])
   \<and> set [new_doc] \<inter> set [rules_b] = {}
   \<and> subseq [new_doc] [rules_b, new_doc]
   \<and> subseq [rules_b] [rules_b, new_doc]"
proof -
  have c: "compare_pdfs [rules_a] [rules_b, new_doc] = ([new_doc], [rules_b])"
    by (simp add: compare_pdfs_def previous_urls_single previous_titles_single example_pdfs)
  show ?thesis
    using compare_pdfs_disjoint_subsequences [of "[rules_a]" "[rules_b, new_doc]"]
    by (simp add: c)
qed

text \<open>
  C4. A current record whose URL is a key of the by-URL mapping of the previous
  list, and whose filename differs from the filename of the record stored there,
  is put in the modified list (and not in the new list), whatever its document
  identifier is.
\<close>

theorem changed_filename_is_modified:
  assumes "p \<in> set cur"
    and "previous_urls prev (url p) = Some q"
    and "filename p \<noteq> filename q"
  shows "p \<in> set (snd (compare_pdfs prev cur)) \<and> p \<notin> set (fst (compare_pdfs prev cur))"
  using assms by (simp add: compare_pdfs_filter goes_to_modified_def goes_to_new_def)

theorem changed_filename_is_modified_witness:
  "rules_b \<in> set [rules_b]
   \<and> previous_urls [rules_a] (url rules_b) = Some rules_a
   \<and> filename rules_b \<noteq> filename rules_a
   \<and> rules_b \<in> set (snd (compare_pdfs [rules_a] [rules_b]))
   \<and> rules_b \<notin> set (fst (compare_pdfs [rules_a] [rules_b]))"
proof -
  have 1: "rules_b \<in> set [rules_b]" by simp
  have 2: "previous_urls [rules_a] (url rules_b) = Some rules_a"
    by (simp add: previous_urls_single example_pdfs)
  have 3: "filename rules_b \<noteq> filename rules_a"
    by (simp add: example_pdfs)
  show ?thesis
    using 1 2 3 changed_filename_is_modified [OF 1 2 3] by simp
qed

text \<open>
  C5. A current record whose URL is a key of the by-URL mapping, with the same
  filename as the record stored there but a different document identifier and a
  different title, is put in neither list.
\<close>

theorem title_mismatch_blocks_document_id_rule:
  assumes "p \<in> set cur"
    and "previous_urls prev (url p) = Some q"
    and "filename p = filename q"
    and "document_id p \<noteq> document_id q"
    and "title p \<noteq> title q"
  shows "p \<notin> set (fst (compare_pdfs prev cur)) \<and> p \<notin> set (snd (compare_pdfs prev cur))"
  using assms by (simp add: compare_pdfs_filter goes_to_modified_def goes_to_new_def)

theorem title_mismatch_blocks_document_id_rule_witness:
  "rules2_a \<in> set [rules2_a]
   \<and> previous_urls [rules_a] (url rules2_a) = Some rules_a
   \<and> filename rules2_a = filename rules_a
   \<and> document_id rules2_a \<noteq> document_id rules_a
   \<and> title rules2_a \<noteq> title rules_a
   \<and> rules2_a \<notin> set (fst (compare_pdfs [rules_a] [rules2_a]))
   \<and> rules2_a \<notin> set (snd (compare_pdfs [rules_a] [rules2_a]))"
proof -
  have 1: "rules2_a \<in> set [rules2_a]" by simp
  have 2: "previous_urls [rules_a] (url rules2_a) = Some rules_a"
    by (simp add: previous_urls_single example_pdfs)
  have 3: "filename rules2_a = filename rules_a"
    by (simp add: example_pdfs)
  have 4: "document_id rules2_a \<noteq> document_id rules_a"
    by (simp add: example_pdfs)
  have 5: "title rules2_a \<noteq> title rules_a"
    by (simp add: example_pdfs)
  show ?thesis
    using 1 2 3 4 5 title_mismatch_blocks_document_id_rule [OF 1 2 3 4 5] by simp
qed

text \<open>
  C7. A current record whose URL is the URL of no previous record is put in the
  modified list (not the new one) when its title is the title of some previous
  record, and in the new list (not the modified one) when its title is the title of
  no previous record.
\<close>

theorem unseen_url_modified_or_new:
  assumes "p \<in> set cur" and "url p \<notin> url ` set prev"
  shows "(title p \<in> title ` set prev \<longrightarrow>
            p \<in> set (snd (compare_pdfs prev cur)) \<and> p \<notin> set (fst (compare_pdfs prev cur)))
       \<and> (title p \<notin> title ` set prev \<longrightarrow>
            p \<in> set (fst (compare_pdfs prev cur)) \<and> p \<notin> set (snd (compare_pdfs prev cur)))"
proof -
  have u: "previous_urls prev (url p) = None"
    using assms(2) dom_previous_urls [of prev] by (auto simp: domIff)
  have t: "(previous_titles prev (title p) = None) = (title p \<notin> title ` set prev)"
    using dom_previous_titles [of prev] by (auto simp: domIff)
  show ?thesis
    using assms(1) u t by (auto simp: compare_pdfs_filter goes_to_modified_def goes_to_new_def)
qed

theorem unseen_url_modified_or_new_witness:
  "rules_moved \<in> set [rules_moved]
   \<and> url rules_moved \<notin> url ` set [rules_a]
   \<and> title rules_moved \<in> title ` set [rules_a]
   \<and> rules_moved \<in> set (snd (compare_pdfs [rules_a] [rules_moved]))
   \<and> rules_moved \<notin> set (fst (compare_pdfs [rules_a] [rules_moved]))
   \<and> new_doc \<in> set [new_doc]
   \<and> url new_doc \<notin> url ` set ([] :: pdf list)
   \<and> title new_doc \<notin> title ` set ([] :: pdf list)
   \<and> new_doc \<in> set (fst (compare_pdfs [] [new_doc]))
   \<and> new_doc \<notin> set (snd (compare_pdfs [] [new_doc]))"
proof -
  have 1: "rules_moved \<in> set [rules_moved]" by simp
  have 2: "url rules_moved \<notin> url ` set [rules_a]"
    by (simp add: example_pdfs)
  have 3: "title rules_moved \<in> title ` set [rules_a]"
    by (simp add: example_pdfs)
  have 4: "new_doc \<in> set [new_doc]" by simp
  have 5: "url new_doc \<notin> url ` set ([] :: pdf list)" by simp
  have 6: "title new_doc \<notin> title ` set ([] :: pdf list)" by simp
  show ?thesis
    using 1 2 3 4 5 6
      unseen_url_modified_or_new [OF 1 2]
      unseen_url_modified_or_new [OF 4 5]
    by simp
qed

subsection \<open>Evaluations on the example inputs\<close>

lemma scrape_example_page: "scrape_pdfs example_page = Inr (Some [document_link])"
  by code_simp

lemma scrape_no_marker_page: "scrape_pdfs no_marker_page = Inr None"
  by code_simp





lemma zero_ids:
  "py_int (getenv zero_env ''CHANNEL_ID'') = Inr 0"
  "py_int (getenv zero_env ''ROLE_ID'') = Inr 34"
  by code_simp+

lemma load_first_run: "load_data E first_run = Inr []"
  by (simp add: load_data_def read_data_def first_run_def)



subsection \<open>A page that has not changed\<close>

lemma scrape_rows_doc_id:
  "scrape_rows rows acc = Inr links \<Longrightarrow>
   list_all (\<lambda>l. document_id l = doc_id_of (url l)) acc \<Longrightarrow>
   list_all (\<lambda>l. document_id l = doc_id_of (url l)) links"
proof (induction rows arbitrary: acc)
  case Nil
  then show ?case by simp
next
  case (Cons row rows)
  show ?case
    using Cons.prems Cons.IH
    by (auto simp: Let_def split: option.splits)
qed

lemma scrape_pdfs_doc_id:
  "scrape_pdfs page = Inr (Some links) \<Longrightarrow>
   list_all (\<lambda>l. document_id l = doc_id_of (url l)) links"
  using scrape_rows_doc_id [of _ "[]" links]
  by (auto simp: scrape_pdfs_def split: option.splits sum.splits prod.splits)

lemma compare_same_empty:
  assumes "\<And>p q. p \<in> set cur \<Longrightarrow> q \<in> set cur \<Longrightarrow> url p = url q \<Longrightarrow>
             filename p = filename q \<and> document_id p = document_id q"
  shows "compare_pdfs cur cur = ([], [])"
proof -
  have "\<not> goes_to_new (previous_urls cur) (previous_titles cur) p
        \<and> \<not> goes_to_modified (previous_urls cur) (previous_titles cur) p"
    if p: "p \<in> set cur" for p
  proof -
    from p have "url p \<in> dom (previous_urls cur)"
      by (simp add: dom_previous_urls)
    then obtain q where q: "previous_urls cur (url p) = Some q"
      by auto
    from previous_urls_Some [OF q] assms [OF p, of q]
    have "filename p = filename q \<and> document_id p = document_id q"
      by simp
    with q show ?thesis
      by (simp add: goes_to_new_def goes_to_modified_def)
  qed
  then show ?thesis
    by (simp add: compare_pdfs_filter filter_empty_conv)
qed

text \<open>
  C6. A current record whose URL is a key of the by-URL mapping, with the same
  filename and the same document identifier as the record stored there, is put in
  neither list. Hence a second comparison on an unchanged page finds nothing: when
  the previous list is the list that the same page and the same HEAD answers gave
  (every document identifier is computed from the URL, every filename from the
  answer for the URL), both result lists are empty.
\<close>

theorem unchanged_record_in_neither_list:
  "(p \<in> set cur \<and> previous_urls prev (url p) = Some q
      \<and> filename p = filename q \<and> document_id p = document_id q
    \<longrightarrow> p \<notin> set (fst (compare_pdfs prev cur)) \<and> p \<notin> set (snd (compare_pdfs prev cur)))
   \<and> (scrape_pdfs page = Inr (Some links)
    \<longrightarrow> compare_pdfs (map (attach_filename E) links) (map (attach_filename E) links)
          = ([], []))"
proof (intro conjI impI)
  assume "p \<in> set cur \<and> previous_urls prev (url p) = Some q
      \<and> filename p = filename q \<and> document_id p = document_id q"
  then show "p \<notin> set (fst (compare_pdfs prev cur))"
    by (simp add: compare_pdfs_filter goes_to_new_def)
next
  assume "p \<in> set cur \<and> previous_urls prev (url p) = Some q
      \<and> filename p = filename q \<and> document_id p = document_id q"
  then show "p \<notin> set (snd (compare_pdfs prev cur))"
    by (simp add: compare_pdfs_filter goes_to_modified_def)
next
  assume s: "scrape_pdfs page = Inr (Some links)"
  have d: "document_id l = doc_id_of (url l)" if "l \<in> set links" for l
    using scrape_pdfs_doc_id [OF s] that by (simp add: list_all_iff)
  show "compare_pdfs (map (attach_filename E) links) (map (attach_filename E) links) = ([], [])"
  proof (rule compare_same_empty)
    fix p q
    assume "p \<in> set (map (attach_filename E) links)"
      and "q \<in> set (map (attach_filename E) links)" and u: "url p = url q"
    then obtain l m where l: "l \<in> set links" "p = attach_filename E l"
      and m: "m \<in> set links" "q = attach_filename E m"
      by auto
    from u l m have "url l = url m"
      by (simp add: attach_filename_def)
    with d [OF l(1)] d [OF m(1)] l m
    show "filename p = filename q \<and> document_id p = document_id q"
      by (simp add: attach_filename_def)
  qed
qed

theorem unchanged_record_in_neither_list_witness:
  "rules_a \<in> set [rules_a, new_doc]
   \<and> previous_urls [rules_b, rules_a] (url rules_a) = Some rules_a
   \<and> rules_a \<notin> set (fst (compare_pdfs [rules_b, rules_a] [rules_a, new_doc]))
   \<and> rules_a \<notin> set (snd (compare_pdfs [rules_b, rules_a] [rules_a, new_doc]))
   \<and> scrape_pdfs example_page = Inr (Some [document_link])
   \<and> compare_pdfs (map (attach_filename example_env) [document_link])
        (map (attach_filename example_env) [document_link]) = ([], [])"
proof -
  have 1: "rules_a \<in> set [rules_a, new_doc]" by simp
  have 2: "previous_urls [rules_b, rules_a] (url rules_a) = Some rules_a"
    by (simp add: previous_urls_def example_pdfs)
  show ?thesis
    using 1 2 scrape_example_page
      unchanged_record_in_neither_list
        [of rules_a "[rules_a, new_doc]" "[rules_b, rules_a]" rules_a
            example_page "[document_link]" example_env]
    by simp
qed

section \<open>Properties of the snapshot store\<close>

text \<open>
  C8. When the cache file is absent, \<open>load_data\<close> returns the empty list. Any other
  failure of the read (an exception of \<^verbatim>\<open>open\<close> or of \<^verbatim>\<open>json.load\<close> that is not
  \<^verbatim>\<open>FileNotFoundError\<close>) leaves \<open>load_data\<close> as that exception, and the cycle ends
  with it, the cache file and the sent messages as they were.
\<close>

theorem load_data_missing_or_propagates:
  "(data_file w = Missing \<longrightarrow> load_data E w = Inr [])
   \<and> (read_data E w = Inl e \<and> e \<noteq> FileNotFoundError
      \<longrightarrow> load_data E w = Inl e \<and> check_for_updates E w = (Inl e, w))"
  by (simp add: load_data_def read_data_def check_for_updates_def)

theorem load_data_missing_or_propagates_witness:
  "data_file first_run = Missing
   \<and> load_data example_env first_run = Inr []
   \<and> read_data example_env locked_file = Inl PermissionError
   \<and> PermissionError \<noteq> FileNotFoundError
   \<and> load_data example_env locked_file = Inl PermissionError
   \<and> check_for_updates example_env locked_file = (Inl PermissionError, locked_file)"
proof -
  have 1: "data_file first_run = Missing"
    by (simp add: first_run_def)
  have 2: "read_data example_env locked_file = Inl PermissionError"
    by (simp add: read_data_def locked_file_def)
  show ?thesis
    using 1 2
      load_data_missing_or_propagates [of first_run example_env]
      load_data_missing_or_propagates [of locked_file example_env PermissionError]
    by simp
qed

subsection \<open>Reading back what json.dump wrote\<close>

lemma prepend_simps [simp]:
  "prepend [] r = r"
  "prepend (t # ts) r = cons_token t (prepend ts r)"
  "prepend (ts @ us) r = prepend ts (prepend us r)"
  by (simp_all add: prepend_def)
























section \<open>Properties of the listing parser\<close>

lemma scrape_rows_raises:
  assumes "row \<in> set rows"
    and "find_tag (is_tag ''td'') row = None
         \<or> (\<exists>c. find_tag (is_tag ''td'') row = Some c \<and> find_text (contents c) = None)"
  shows "scrape_rows rows links = Inl AttributeError"
  using assms
proof (induction rows arbitrary: links)
  case Nil
  then show ?case by simp
next
  case (Cons r rows)
  show ?case
  proof (cases "r = row")
    case True
    with Cons.prems(2) show ?thesis by auto
  next
    case False
    with Cons.prems have "row \<in> set rows" by simp
    from Cons.IH [OF this Cons.prems(2)] show ?thesis
      by (simp add: Let_def split: option.splits)
  qed
qed

lemma scrape_pdfs_raises:
  assumes "find_with_siblings is_ruleset_row page = Some (ruleset_row, siblings)"
    and "row \<in> set (collect_rows siblings)"
    and "find_tag (is_tag ''td'') row = None
         \<or> (\<exists>c. find_tag (is_tag ''td'') row = Some c \<and> find_text (contents c) = None)"
  shows "scrape_pdfs page = Inl AttributeError"
  using assms(1) scrape_rows_raises [OF assms(2) assms(3), of "[]"]
  by (simp add: scrape_pdfs_def)

text \<open>
  Whatever the page is: without the marker row \<open>scrape_pdfs\<close> returns \<^verbatim>\<open>None\<close>, and
  a cycle that could load its previous list ends in \<^verbatim>\<open>TypeError\<close>, the world
  unchanged.
\<close>

lemma no_marker_row_None:
  "find_with_siblings is_ruleset_row page = None \<Longrightarrow> scrape_pdfs page = Inr None"
  by (simp add: scrape_pdfs_def)

lemma no_marker_row_TypeError:
  assumes "find_with_siblings is_ruleset_row (soup E) = None"
    and "load_data E w = Inr prev"
  shows "check_for_updates E w = (Inl TypeError, w)"
  using assms by (simp add: check_for_updates_def no_marker_row_None)

text \<open>
  C1, on a page without the marker row: \<open>scrape_pdfs\<close> returns \<^verbatim>\<open>None\<close>, not an empty
  list, and the cycle ends in \<^verbatim>\<open>TypeError\<close> at the loop over \<^verbatim>\<open>current_pdfs\<close>, with
  nothing sent and nothing saved.
\<close>

theorem missing_marker_row_ends_cycle:
  "find_with_siblings is_ruleset_row no_marker_page = None
   \<and> scrape_pdfs no_marker_page = Inr None
   \<and> soup no_marker_env = no_marker_page
   \<and> load_data no_marker_env first_run = Inr []
   \<and> check_for_updates no_marker_env first_run = (Inl TypeError, first_run)"
proof -
  have 1: "find_with_siblings is_ruleset_row no_marker_page = None"
    by code_simp
  have 2: "soup no_marker_env = no_marker_page"
    by (simp add: no_marker_env_def)
  have 3: "check_for_updates no_marker_env first_run = (Inl TypeError, first_run)"
    using 1 by (intro no_marker_row_TypeError [OF _ load_first_run]) (simp add: 2)
  show ?thesis
    using 1 2 3 by (simp add: scrape_no_marker_page load_first_run)
qed

text \<open>
  C10. There is a page with the marker row and a collected row without any cell,
  and a page with the marker row and a collected row whose first cell has no
  direct text node, on which \<open>scrape_pdfs\<close> raises \<^verbatim>\<open>AttributeError\<close> instead of
  returning records.
\<close>

theorem scrape_pdfs_raises_on_some_page:
  "(\<exists>page ruleset_row siblings row.
      find_with_siblings is_ruleset_row page = Some (ruleset_row, siblings)
      \<and> row \<in> set (collect_rows siblings)
      \<and> find_tag (is_tag ''td'') row = None
      \<and> scrape_pdfs page = Inl AttributeError)
   \<and> (\<exists>page ruleset_row siblings row first_cell.
      find_with_siblings is_ruleset_row page = Some (ruleset_row, siblings)
      \<and> row \<in> set (collect_rows siblings)
      \<and> find_tag (is_tag ''td'') row = Some first_cell
      \<and> find_text (contents first_cell) = None
      \<and> scrape_pdfs page = Inl AttributeError)"
proof (rule conjI)
  have f: "find_with_siblings is_ruleset_row page_without_cell
             = Some (marker_row, [row_without_cell])"
    by code_simp
  have r: "row_without_cell \<in> set (collect_rows [row_without_cell])"
    by code_simp
  have c: "find_tag (is_tag ''td'') row_without_cell = None"
    by code_simp
  from f r c scrape_pdfs_raises [OF f r] show
    "\<exists>page ruleset_row siblings row.
      find_with_siblings is_ruleset_row page = Some (ruleset_row, siblings)
      \<and> row \<in> set (collect_rows siblings)
      \<and> find_tag (is_tag ''td'') row = None
      \<and> scrape_pdfs page = Inl AttributeError"
    by blast
next
  let ?cell = "Tag ''td'' [] [] [Tag ''b'' [] [] [NavigableString ''Rules'']]"
  have f: "find_with_siblings is_ruleset_row page_without_text
             = Some (marker_row, [row_without_text])"
    by code_simp
  have r: "row_without_text \<in> set (collect_rows [row_without_text])"
    by code_simp
  have c: "find_tag (is_tag ''td'') row_without_text = Some ?cell"
    by code_simp
  have t: "find_text (contents ?cell) = None"
    by simp
  from c t have "find_tag (is_tag ''td'') row_without_text = None
         \<or> (\<exists>c. find_tag (is_tag ''td'') row_without_text = Some c
                  \<and> find_text (contents c) = None)"
    by blast
  from f r c t scrape_pdfs_raises [OF f r this] show
    "\<exists>page ruleset_row siblings row first_cell.
      find_with_siblings is_ruleset_row page = Some (ruleset_row, siblings)
      \<and> row \<in> set (collect_rows siblings)
      \<and> find_tag (is_tag ''td'') row = Some first_cell
      \<and> find_text (contents first_cell) = None
      \<and> scrape_pdfs page = Inl AttributeError"
    by blast
qed

section \<open>Properties of the cycle\<close>







end
